theory Spec2Isabelle
  imports Complex_Main
begin

section \<open>The host design model that placement.py works on\<close>

text \<open>
  placement.py manipulates objects of the pcbnew library: boards, board items and groups.
  They are mutable and shared, so the model keeps them in an explicit store, addressed by
  references. Python's unbounded integers are \<open>int\<close>. A Python float is given by the
  real number it denotes; the operations on floats round, and are parameters of the model.
\<close>

type_synonym ref = nat

type_synonym VECTOR2I = "int \<times> int"

datatype error = NameError | AttributeError | IndexError

text \<open>The item classes the source names; PCB_VIA is a subclass of PCB_TRACK in pcbnew.\<close>

datatype item_class = FOOTPRINT | PCB_TRACK | PCB_VIA | ZONE | PCB_SHAPE | PCB_TEXT

fun issubclass :: "item_class \<Rightarrow> item_class \<Rightarrow> bool" where
  "issubclass PCB_VIA PCB_TRACK = True"
| "issubclass c d = (c = d)"

definition isinstance :: "item_class \<Rightarrow> item_class list \<Rightarrow> bool" where
  "isinstance c ds = list_ex (issubclass c) ds"

record field =
  f_text :: string
  f_position :: VECTOR2I
  f_angle :: real

text \<open>
  One record for every board item; a class reads only the attributes it has. Orientations
  are in degrees. \<open>pads\<close> is the footprint's pad list, each pad given by its net code.
\<close>

record item =
  cls :: item_class
  board :: ref
  parent_group :: "ref option"
  position :: VECTOR2I
  orientation :: real
  track_start :: VECTOR2I
  track_end :: VECTOR2I
  netcode :: int
  is_free :: bool
  reference :: string
  fp_fields :: "field list"
  pads :: "int list"
  flipped :: bool
  local_clearance :: int
  solder_mask_margin :: int
  solder_paste_margin :: int
  solder_paste_margin_ratio :: real
  zone_connection :: int

record pcb_group =
  g_name :: string
  g_items :: "ref list"
  g_board :: "ref option"

text \<open>A board holds its items in insertion order, and its groups.\<close>

record pcb_board =
  Items :: "ref list"
  Groups :: "ref list"

record world =
  boards :: "ref \<Rightarrow> pcb_board"
  items :: "ref \<Rightarrow> item"
  pcb_groups :: "ref \<Rightarrow> pcb_group"
  fresh :: ref
  log :: "string list"

section \<open>PositionTransform\<close>

record PositionTransform =
  anchor_template :: ref
  anchor_mutate :: ref

text \<open>
  The floating-point arithmetic of the interpreter: which reals are floats, the conversion
  of an integer, the rounding operations, and the library functions \<open>math.sin\<close>,
  \<open>math.cos\<close> and \<open>math.radians\<close>.
\<close>

record float_arith =
  representable :: "real \<Rightarrow> bool"
  f_of_int :: "int \<Rightarrow> real"
  f_add :: "real \<Rightarrow> real \<Rightarrow> real"
  f_sub :: "real \<Rightarrow> real \<Rightarrow> real"
  f_mul :: "real \<Rightarrow> real \<Rightarrow> real"
  f_sin :: "real \<Rightarrow> real"
  f_cos :: "real \<Rightarrow> real"
  f_radians :: "real \<Rightarrow> real"



text \<open>Python's \<open>int\<close> on a float: truncation toward zero, which does not round.\<close>

definition py_int :: "real \<Rightarrow> int" where
  "py_int x = (if 0 \<le> x then \<lfloor>x\<rfloor> else \<lceil>x\<rceil>)"

definition translate :: "float_arith \<Rightarrow> PositionTransform \<Rightarrow> world \<Rightarrow> VECTOR2I \<Rightarrow> VECTOR2I" where
  "translate F T w pos_template =
     (let a_t = items w (anchor_template T);
          a_m = items w (anchor_mutate T);
          delta_x = fst pos_template - fst (position a_t);
          delta_y = snd pos_template - snd (position a_t);
          rotation = f_radians F (f_sub F (orientation a_m) (orientation a_t));
          new_x = f_add F
                    (f_add F (f_mul F (f_of_int F delta_y) (f_sin F rotation))
                             (f_mul F (f_of_int F delta_x) (f_cos F rotation)))
                    (f_of_int F (fst (position a_m)));
          new_y = f_add F
                    (f_sub F (f_mul F (f_of_int F delta_y) (f_cos F rotation))
                             (f_mul F (f_of_int F delta_x) (f_sin F rotation)))
                    (f_of_int F (snd (position a_m)))
      in (py_int new_x, py_int new_y))"

definition orient :: "float_arith \<Rightarrow> PositionTransform \<Rightarrow> world \<Rightarrow> real \<Rightarrow> real" where
  "orient F T w rot_template =
     f_add F (f_sub F rot_template (orientation (items w (anchor_template T))))
       (orientation (items w (anchor_mutate T)))"




section \<open>Host operations on groups and boards\<close>

text \<open>
  pcbnew is an external library. Its operations are modelled as far as the source calls
  them. Group membership is exclusive and the host enforces it: \<open>AddItem\<close> first takes the
  item out of the group it is in. \<open>RemoveNative\<close> takes an item off the board and out of
  its group.
\<close>

definition GetParentGroup :: "world \<Rightarrow> ref \<Rightarrow> ref option" where
  "GetParentGroup w r = parent_group (items w r)"

definition GetName :: "world \<Rightarrow> ref \<Rightarrow> string" where
  "GetName w g = g_name (pcb_groups w g)"

definition RemoveItem :: "ref \<Rightarrow> ref \<Rightarrow> world \<Rightarrow> world" where
  "RemoveItem g r w =
     w\<lparr>pcb_groups := (pcb_groups w)
          (g := (pcb_groups w g)\<lparr>g_items := removeAll r (g_items (pcb_groups w g))\<rparr>),
       items := (items w)(r := (items w r)\<lparr>parent_group := None\<rparr>)\<rparr>"

definition AddItem :: "ref \<Rightarrow> ref \<Rightarrow> world \<Rightarrow> world" where
  "AddItem g r w =
     (let w1 = (case GetParentGroup w r of None \<Rightarrow> w | Some p \<Rightarrow> RemoveItem p r w)
      in w1\<lparr>pcb_groups := (pcb_groups w1)
               (g := (pcb_groups w1 g)\<lparr>g_items := g_items (pcb_groups w1 g) @ [r]\<rparr>),
            items := (items w1)(r := (items w1 r)\<lparr>parent_group := Some g\<rparr>)\<rparr>)"

text \<open>\<open>BOARD.Add\<close> for an item and for a group.\<close>

definition Add :: "ref \<Rightarrow> ref \<Rightarrow> world \<Rightarrow> world" where
  "Add b r w =
     w\<lparr>boards := (boards w)(b := (boards w b)\<lparr>Items := Items (boards w b) @ [r]\<rparr>),
       items := (items w)(r := (items w r)\<lparr>board := b\<rparr>)\<rparr>"

definition Add_group :: "ref \<Rightarrow> ref \<Rightarrow> world \<Rightarrow> world" where
  "Add_group b g w =
     w\<lparr>boards := (boards w)(b := (boards w b)\<lparr>Groups := Groups (boards w b) @ [g]\<rparr>),
       pcb_groups := (pcb_groups w)(g := (pcb_groups w g)\<lparr>g_board := Some b\<rparr>)\<rparr>"

definition RemoveNative :: "ref \<Rightarrow> ref \<Rightarrow> world \<Rightarrow> world" where
  "RemoveNative b r w =
     (let w1 = w\<lparr>boards := (boards w)
                   (b := (boards w b)\<lparr>Items := removeAll r (Items (boards w b))\<rparr>)\<rparr>
      in case GetParentGroup w1 r of None \<Rightarrow> w1 | Some p \<Rightarrow> RemoveItem p r w1)"

text \<open>The board's enumerations select by class from the items it holds.\<close>

definition items_of_class :: "world \<Rightarrow> ref \<Rightarrow> item_class list \<Rightarrow> ref list" where
  "items_of_class w b cs = filter (\<lambda>r. isinstance (cls (items w r)) cs) (Items (boards w b))"

definition GetFootprints :: "world \<Rightarrow> ref \<Rightarrow> ref list" where
  "GetFootprints w b = items_of_class w b [FOOTPRINT]"

definition Tracks :: "world \<Rightarrow> ref \<Rightarrow> ref list" where
  "Tracks w b = items_of_class w b [PCB_TRACK]"

definition Zones :: "world \<Rightarrow> ref \<Rightarrow> ref list" where
  "Zones w b = items_of_class w b [ZONE]"

definition GetDrawings :: "world \<Rightarrow> ref \<Rightarrow> ref list" where
  "GetDrawings w b = items_of_class w b [PCB_SHAPE, PCB_TEXT]"

text \<open>
  \<open>PCB_GROUP(None)\<close> allocates an unnamed, unregistered, empty group. \<open>Duplicate\<close>
  allocates an independent copy of an item, in no group.
\<close>

definition PCB_GROUP_new :: "world \<Rightarrow> ref \<times> world" where
  "PCB_GROUP_new w =
     (fresh w,
      w\<lparr>pcb_groups := (pcb_groups w)
           (fresh w := \<lparr>g_name = [], g_items = [], g_board = None\<rparr>),
        fresh := Suc (fresh w)\<rparr>)"

definition SetName :: "ref \<Rightarrow> string \<Rightarrow> world \<Rightarrow> world" where
  "SetName g n w = w\<lparr>pcb_groups := (pcb_groups w)(g := (pcb_groups w g)\<lparr>g_name := n\<rparr>)\<rparr>"

definition Duplicate :: "ref \<Rightarrow> world \<Rightarrow> ref \<times> world" where
  "Duplicate r w =
     (fresh w,
      w\<lparr>items := (items w)(fresh w := (items w r)\<lparr>parent_group := None\<rparr>),
        fresh := Suc (fresh w)\<rparr>)"

text \<open>An attribute update of one item in the store.\<close>

definition update_item :: "ref \<Rightarrow> (item \<Rightarrow> item) \<Rightarrow> world \<Rightarrow> world" where
  "update_item r f w = w\<lparr>items := (items w)(r := f (items w r))\<rparr>"

section \<open>GroupManager\<close>

record GroupManager =
  gm_board :: ref
  gm_group :: ref

text \<open>
  The loop of \<open>_create_or_get\<close> has no break: \<open>retGroup\<close> is overwritten at every match.
\<close>

definition find_group :: "world \<Rightarrow> string \<Rightarrow> ref list \<Rightarrow> ref option" where
  "find_group w group_name gs =
     fold (\<lambda>g retGroup. if GetName w g = group_name then Some g else retGroup) gs None"

definition create_or_get :: "ref \<Rightarrow> string \<Rightarrow> world \<Rightarrow> ref \<times> world" where
  "create_or_get b group_name w =
     (case find_group w group_name (Groups (boards w b)) of
        Some retGroup \<Rightarrow> (retGroup, w)
      | None \<Rightarrow>
          (let (retGroup, w1) = PCB_GROUP_new w;
               w2 = SetName retGroup group_name w1;
               w3 = Add_group b retGroup w2
           in (retGroup, w3)))"

definition GroupManager_init :: "ref \<Rightarrow> string \<Rightarrow> world \<Rightarrow> GroupManager \<times> world" where
  "GroupManager_init b groupName w =
     (let (g, w1) = create_or_get b groupName w
      in (\<lparr>gm_board = b, gm_group = g\<rparr>, w1))"

definition move :: "GroupManager \<Rightarrow> ref \<Rightarrow> world \<Rightarrow> bool \<times> world" where
  "move M item w =
     (let moved = False;
          parent_group = GetParentGroup w item;
          (moved, parent_group, w1) =
            (case parent_group of
               Some p \<Rightarrow>
                 if GetName w p \<noteq> GetName w (gm_group M)
                 then (True, None, RemoveItem p item w)
                 else (moved, parent_group, w)
             | None \<Rightarrow> (moved, parent_group, w));
          w2 = (if parent_group = None then AddItem (gm_group M) item w1 else w1)
      in (moved, w2))"

section \<open>ReplicateContext\<close>

record ReplicateContext =
  transform :: PositionTransform
  manager :: GroupManager
  sourceBoard :: ref
  targetBoard :: ref

text \<open>Line 133 hands \<open>self._sourceBoard\<close> to \<open>GroupManager.__init__\<close>.\<close>

definition ReplicateContext_init ::
  "ref \<Rightarrow> ref \<Rightarrow> string \<Rightarrow> world \<Rightarrow> ReplicateContext \<times> world" where
  "ReplicateContext_init sourceAnchorFootprint targetAnchorFootprint groupName w =
     (let source_board = board (items w sourceAnchorFootprint);
          target_board = board (items w targetAnchorFootprint);
          T = \<lparr>anchor_template = sourceAnchorFootprint,
               anchor_mutate = targetAnchorFootprint\<rparr>;
          (M, w1) = GroupManager_init source_board groupName w
      in (\<lparr>transform = T, manager = M, sourceBoard = source_board,
           targetBoard = target_board\<rparr>, w1))"

section \<open>Purging the volatile items of a group\<close>

definition itemTypesToRemove :: "item_class list" where
  "itemTypesToRemove = [PCB_TRACK, ZONE, PCB_SHAPE, PCB_TEXT, ZONE]"

text \<open>
  \<open>board\<close> is \<open>group.GetBoard()\<close>, which is None for a group that is on no board; calling
  \<open>RemoveNative\<close> on None raises AttributeError. The loop runs over the group's items as
  they were when it started.
\<close>

fun purge_loop :: "ref option \<Rightarrow> ref list \<Rightarrow> world \<Rightarrow> (error + unit) \<times> world" where
  "purge_loop brd [] w = (Inr (), w)"
| "purge_loop brd (item # rest) w =
     (if isinstance (cls (items w item)) itemTypesToRemove
      then (case brd of
              None \<Rightarrow> (Inl AttributeError, w)
            | Some b \<Rightarrow> purge_loop brd rest (RemoveNative b item w))
      else purge_loop brd rest w)"

definition clear_volatile_items :: "ref \<Rightarrow> world \<Rightarrow> (error + unit) \<times> world" where
  "clear_volatile_items g w =
     purge_loop (g_board (pcb_groups w g)) (g_items (pcb_groups w g)) w"

section \<open>Names that a function of the module can read\<close>

text \<open>
  The names placement.py binds at module level. A function reads a name that is neither
  one of its locals nor bound here (nor a builtin) with a NameError.
\<close>

definition module_globals :: "string list" where
  "module_globals =
     [''logging'', ''math'', ''zip_longest'', ''Callable'', ''Dict'', ''List'', ''Optional'',
      ''Tuple'', ''pcbnew'', ''logger'', ''ErrorLevel'', ''ReportedError'',
      ''PositionTransform'', ''GroupManager'', ''ReplicateContext'', ''clear_volatile_items'',
      ''copy_drawings'', ''copy_traces'', ''copy_zones'', ''copy_footprint_fields'',
      ''copy_footprint_data'', ''enforce_position_footprints'']"

definition load_name :: "string list \<Rightarrow> string \<Rightarrow> error + unit" where
  "load_name local_names n =
     (if n \<in> set local_names \<or> n \<in> set module_globals then Inr () else Inl NameError)"

section \<open>Copying drawings, tracks and zones\<close>

text \<open>
  Host setters. Every \<open>Rotate\<close> call of the source turns an item about its own position,
  which keeps the position and adds the angle to the orientation. A network is identified
  with its code, so \<open>FindNet\<close> returns the code it is given.
\<close>

definition ANGLE_0 :: real where
  "ANGLE_0 = 0"

definition SetPosition :: "ref \<Rightarrow> VECTOR2I \<Rightarrow> world \<Rightarrow> world" where
  "SetPosition r p w = update_item r (\<lambda>i. i\<lparr>position := p\<rparr>) w"

definition Rotate_about_position :: "float_arith \<Rightarrow> ref \<Rightarrow> real \<Rightarrow> world \<Rightarrow> world" where
  "Rotate_about_position F r angle w =
     update_item r (\<lambda>i. i\<lparr>orientation := f_add F (orientation i) angle\<rparr>) w"

definition Move :: "ref \<Rightarrow> VECTOR2I \<Rightarrow> world \<Rightarrow> world" where
  "Move r d w =
     update_item r (\<lambda>i. i\<lparr>position := (fst (position i) + fst d, snd (position i) + snd d)\<rparr>) w"

definition FindNet :: "world \<Rightarrow> ref \<Rightarrow> int \<Rightarrow> int" where
  "FindNet w b code = code"

definition SetNet :: "ref \<Rightarrow> int \<Rightarrow> world \<Rightarrow> world" where
  "SetNet r n w = update_item r (\<lambda>i. i\<lparr>netcode := n\<rparr>) w"

text \<open>\<open>netMapping.get(code, 0)\<close>.\<close>

definition dict_get :: "(int \<rightharpoonup> int) \<Rightarrow> int \<Rightarrow> int \<Rightarrow> int" where
  "dict_get m k d = (case m k of None \<Rightarrow> d | Some v \<Rightarrow> v)"

text \<open>The body of each for loop is a function of its own; the loop folds it.\<close>

definition copy_drawing :: "float_arith \<Rightarrow> ReplicateContext \<Rightarrow> ref \<Rightarrow> world \<Rightarrow> world" where
  "copy_drawing F context sourceDrawing w =
     (let (newDrawing, w1) = Duplicate sourceDrawing w;
          w2 = Add (targetBoard context) newDrawing w1;
          w3 = SetPosition newDrawing
                 (translate F (transform context) w2 (position (items w2 sourceDrawing))) w2;
          w4 = Rotate_about_position F newDrawing (orient F (transform context) w3 ANGLE_0) w3;
          (moved, w5) = move (manager context) newDrawing w4
      in w5)"

definition copy_drawings :: "float_arith \<Rightarrow> ReplicateContext \<Rightarrow> world \<Rightarrow> world" where
  "copy_drawings F context w =
     fold (copy_drawing F context) (GetDrawings w (sourceBoard context)) w"

definition copy_trace :: "float_arith \<Rightarrow> ReplicateContext \<Rightarrow> (int \<rightharpoonup> int) \<Rightarrow> ref \<Rightarrow> world \<Rightarrow> world" where
  "copy_trace F context netMapping sourceTrack w =
     (let (newTrack, w1) = Duplicate sourceTrack w;
          w2 = Add (targetBoard context) newTrack w1;
          sourceNetCode = netcode (items w2 sourceTrack);
          newNetCode = dict_get netMapping sourceNetCode 0;
          w3 = SetNet newTrack (FindNet w2 (targetBoard context) newNetCode) w2;
          w4 = update_item newTrack
                 (\<lambda>i. i\<lparr>track_start :=
                    translate F (transform context) w3 (track_start (items w3 sourceTrack))\<rparr>) w3;
          w5 = update_item newTrack
                 (\<lambda>i. i\<lparr>track_end :=
                    translate F (transform context) w4 (track_end (items w4 sourceTrack))\<rparr>) w4;
          w6 = (if cls (items w5 newTrack) = PCB_VIA
                then update_item newTrack (\<lambda>i. i\<lparr>is_free := False\<rparr>) w5 else w5);
          (moved, w7) = move (manager context) newTrack w6
      in w7)"

definition copy_traces :: "float_arith \<Rightarrow> ReplicateContext \<Rightarrow> (int \<rightharpoonup> int) \<Rightarrow> world \<Rightarrow> world" where
  "copy_traces F context netMapping w =
     fold (copy_trace F context netMapping) (Tracks w (sourceBoard context)) w"

text \<open>The for loop of \<open>copy_zones\<close> (lines 211 to 234), over the mapping it reads.\<close>

definition copy_zone :: "float_arith \<Rightarrow> ReplicateContext \<Rightarrow> (int \<rightharpoonup> int) \<Rightarrow> ref \<Rightarrow> world \<Rightarrow> world" where
  "copy_zone F context footprintNetMapping sourceZone w =
     (let (newZone, w1) = Duplicate sourceZone w;
          sourceNetCode = netcode (items w1 sourceZone);
          newNetCode = dict_get footprintNetMapping sourceNetCode 0;
          w2 = SetNet newZone (FindNet w1 (targetBoard context) newNetCode) w1;
          w3 = Add (targetBoard context) newZone w2;
          w4 = Move newZone (- fst (position (items w3 newZone)),
                             - snd (position (items w3 newZone))) w3;
          w5 = Move newZone
                 (translate F (transform context) w4 (position (items w4 sourceZone))) w4;
          w6 = Rotate_about_position F newZone (orient F (transform context) w5 ANGLE_0) w5;
          (moved, w7) = move (manager context) newZone w6
      in w7)"

definition copy_zones_loop :: "float_arith \<Rightarrow> ReplicateContext \<Rightarrow> (int \<rightharpoonup> int) \<Rightarrow> world \<Rightarrow> world" where
  "copy_zones_loop F context footprintNetMapping w =
     fold (copy_zone F context footprintNetMapping) (Zones w (sourceBoard context)) w"

text \<open>
  \<open>copy_zones\<close> as written: its first statement (line 206) reads \<open>self._transformer\<close>, and
  \<open>self\<close> is not a parameter of this module-level function. Whatever a visible name is
  bound to (a module, a class, a function, the logger, a context, a dict) has none of the
  attributes read in lines 206 to 209, so the loop is not reached on any path.
\<close>

definition copy_zones ::
  "ReplicateContext \<Rightarrow> (int \<rightharpoonup> int) \<Rightarrow> world \<Rightarrow> (error + unit) \<times> world" where
  "copy_zones context netMapping w =
     (case load_name [''context'', ''netMapping'', ''transform'', ''groupMan'',
                      ''footprintNetMapping'', ''sourceZone'', ''newZone'', ''sourceNetCode'',
                      ''newNetCode''] ''self'' of
        Inl e \<Rightarrow> (Inl e, w)
      | Inr u \<Rightarrow> (Inl AttributeError, w))"

section \<open>Copying footprints and building the net mapping\<close>

text \<open>
  A nested transform with the footprint pair itself as anchors. The target's fields are
  removed, the source's fields are cloned, placed and added, and the target's reference is
  restored.
\<close>

definition clone_field_into :: "float_arith \<Rightarrow> PositionTransform \<Rightarrow> ref \<Rightarrow> field \<Rightarrow> world \<Rightarrow> world" where
  "clone_field_into F T targetFootprint sourceField w =
     (let newField = sourceField;
          newField = newField\<lparr>f_position := translate F T w (f_position sourceField)\<rparr>;
          newField = newField\<lparr>f_angle := f_add F (f_angle newField) (orient F T w ANGLE_0)\<rparr>
      in update_item targetFootprint (\<lambda>i. i\<lparr>fp_fields := fp_fields i @ [newField]\<rparr>) w)"

definition copy_footprint_fields :: "float_arith \<Rightarrow> ref \<Rightarrow> ref \<Rightarrow> world \<Rightarrow> world" where
  "copy_footprint_fields F sourceFootprint targetFootprint w =
     (let T = \<lparr>anchor_template = sourceFootprint, anchor_mutate = targetFootprint\<rparr>;
          originalReference = reference (items w targetFootprint);
          w1 = update_item targetFootprint (\<lambda>i. i\<lparr>fp_fields := []\<rparr>) w;
          w2 = fold (clone_field_into F T targetFootprint) (fp_fields (items w1 sourceFootprint)) w1
      in update_item targetFootprint (\<lambda>i. i\<lparr>reference := originalReference\<rparr>) w2)"

text \<open>
  The host's \<open>Flip\<close> about the footprint's own position, not left-right: the footprint
  changes side and its orientation is mirrored; its position and its pads' nets stay.
\<close>

definition Flip :: "ref \<Rightarrow> world \<Rightarrow> world" where
  "Flip r w = update_item r (\<lambda>i. i\<lparr>flipped := \<not> flipped i, orientation := - orientation i\<rparr>) w"

definition copy_footprint_data :: "float_arith \<Rightarrow> ref \<Rightarrow> ref \<Rightarrow> world \<Rightarrow> world" where
  "copy_footprint_data F sourceFootprint targetFootprint w =
     (let T = \<lparr>anchor_template = sourceFootprint, anchor_mutate = targetFootprint\<rparr>;
          w1 = copy_footprint_fields F sourceFootprint targetFootprint w;
          w2 = (if flipped (items w1 sourceFootprint) \<noteq> flipped (items w1 targetFootprint)
                then Flip targetFootprint w1 else w1);
          w3 = update_item targetFootprint
                 (\<lambda>i. i\<lparr>local_clearance := local_clearance (items w2 sourceFootprint)\<rparr>) w2;
          w4 = update_item targetFootprint
                 (\<lambda>i. i\<lparr>solder_mask_margin := solder_mask_margin (items w3 sourceFootprint)\<rparr>) w3;
          w5 = update_item targetFootprint
                 (\<lambda>i. i\<lparr>solder_paste_margin := solder_paste_margin (items w4 sourceFootprint)\<rparr>) w4;
          w6 = update_item targetFootprint
                 (\<lambda>i. i\<lparr>solder_paste_margin_ratio :=
                           solder_paste_margin_ratio (items w5 sourceFootprint)\<rparr>) w5;
          w7 = update_item targetFootprint
                 (\<lambda>i. i\<lparr>zone_connection := zone_connection (items w6 sourceFootprint)\<rparr>) w6;
          w8 = SetPosition targetFootprint (translate F T w7 (position (items w7 sourceFootprint))) w7
      in update_item targetFootprint
           (\<lambda>i. i\<lparr>orientation := orient F T w8 (orientation (items w8 sourceFootprint))\<rparr>) w8)"

text \<open>
  Lines 318 to 323: \<open>enumerate\<close> runs over the source's pads, and the target's pad list is
  indexed with the same number, which raises IndexError past its end.
\<close>

fun pads_loop ::
  "int list \<Rightarrow> int list \<Rightarrow> nat \<Rightarrow> (int \<rightharpoonup> int) \<Rightarrow> error + (int \<rightharpoonup> int)" where
  "pads_loop [] targetPads sourcePadNum footprintNetMapping = Inr footprintNetMapping"
| "pads_loop (sourceCode # rest) targetPads sourcePadNum footprintNetMapping =
     (if sourcePadNum < length targetPads
      then pads_loop rest targetPads (Suc sourcePadNum)
             (footprintNetMapping(sourceCode \<mapsto> targetPads ! sourcePadNum))
      else Inl IndexError)"

text \<open>Lines 306 to 326, the for loop over the source board's footprints.\<close>

fun footprints_loop ::
  "float_arith \<Rightarrow> ReplicateContext \<Rightarrow> (ref \<Rightarrow> ref option) \<Rightarrow> ref list \<Rightarrow> (int \<rightharpoonup> int) \<Rightarrow> world
     \<Rightarrow> (error + (int \<rightharpoonup> int)) \<times> world" where
  "footprints_loop F context fpTranslator [] footprintNetMapping w = (Inr footprintNetMapping, w)"
| "footprints_loop F context fpTranslator (sourceFootprint # rest) footprintNetMapping w =
     (case fpTranslator sourceFootprint of
        None \<Rightarrow> footprints_loop F context fpTranslator rest footprintNetMapping w
      | Some targetFootprint \<Rightarrow>
          (let w1 = copy_footprint_data F sourceFootprint targetFootprint w
           in case pads_loop (pads (items w1 sourceFootprint)) (pads (items w1 targetFootprint))
                     0 footprintNetMapping of
                Inl e \<Rightarrow> (Inl e, w1)
              | Inr m1 \<Rightarrow>
                  (let (moved, w2) = move (manager context) targetFootprint w1
                   in footprints_loop F context fpTranslator rest m1 w2)))"

text \<open>Lines 303 to 328: the empty mapping, the loop, the return.\<close>

definition enforce_position_footprints_loop ::
  "float_arith \<Rightarrow> ReplicateContext \<Rightarrow> (ref \<Rightarrow> ref option) \<Rightarrow> world \<Rightarrow> (error + (int \<rightharpoonup> int)) \<times> world" where
  "enforce_position_footprints_loop F context fpTranslator w =
     footprints_loop F context fpTranslator (GetFootprints w (sourceBoard context)) Map.empty w"

text \<open>
  \<open>enforce_position_footprints\<close> as written: its first statement (line 299) reads
  \<open>self._fpTranslator\<close>, and \<open>self\<close> is not a parameter of this module-level function.
  No object bound to a visible name has that attribute, so lines 303 to 328 are not reached
  on any path.
\<close>

definition enforce_position_footprints ::
  "ReplicateContext \<Rightarrow> (ref \<Rightarrow> ref option) \<Rightarrow> world \<Rightarrow> (error + (int \<rightharpoonup> int)) \<times> world" where
  "enforce_position_footprints context fpTranslator w =
     (case load_name [''context'', ''fpTranslator'', ''footprintNetMapping'',
                      ''sourceFootprint'', ''targetFootprint'', ''sourcePadNum'', ''sourcePad'',
                      ''targetPad'', ''sourceCode'', ''targetCode''] ''self'' of
        Inl e \<Rightarrow> (Inl e, w)
      | Inr u \<Rightarrow> (Inl AttributeError, w))"

section \<open>One replication run\<close>



section \<open>ReportedError\<close>

text \<open>
  A Python instance is its attribute dictionary. The class body of ReportedError assigns
  no attribute besides the two methods, so reading a name that \<open>__init__\<close> did not set
  raises AttributeError.
\<close>

datatype pyval = PyNone | PyStr string | PyInt int | PyFootprint ref

type_synonym py_instance = "string \<rightharpoonup> pyval"

definition getattr :: "py_instance \<Rightarrow> string \<Rightarrow> error + pyval" where
  "getattr obj n = (case obj n of None \<Rightarrow> Inl AttributeError | Some v \<Rightarrow> Inr v)"

fun truthy :: "pyval \<Rightarrow> bool" where
  "truthy PyNone = False"
| "truthy (PyStr s) = (s \<noteq> [])"
| "truthy (PyInt i) = (i \<noteq> 0)"
| "truthy (PyFootprint r) = True"

definition INFO :: int where "INFO = 0"

definition WARNING :: int where "WARNING = 1"

definition ERROR :: int where "ERROR = 2"

fun str_of_nat :: "nat \<Rightarrow> string" where
  "str_of_nat n =
     (if n < 10 then [char_of (48 + n)] else str_of_nat (n div 10) @ [char_of (48 + n mod 10)])"

declare str_of_nat.simps [simp del]

fun format :: "world \<Rightarrow> pyval \<Rightarrow> string" where
  "format w PyNone = ''None''"
| "format w (PyStr s) = s"
| "format w (PyInt i) = (if i < 0 then ''-'' @ str_of_nat (nat (- i)) else str_of_nat (nat i))"
| "format w (PyFootprint r) = reference (items w r)"

definition bind_error :: "error + 'a \<Rightarrow> ('a \<Rightarrow> error + 'b) \<Rightarrow> error + 'b" where
  "bind_error x f = (case x of Inl e \<Rightarrow> Inl e | Inr v \<Rightarrow> f v)"

text \<open>
  \<open>__str__\<close>. An attribute of an attribute (\<open>self.sheet.identifier\<close>, \<open>self.pcb.path\<close>)
  is read only when its owner is truthy; none of the values modelled here has one.
\<close>

fun join_lines :: "string list \<Rightarrow> string" where
  "join_lines [] = []"
| "join_lines [x] = x"
| "join_lines (x # y # ys) = x @ [CHR 0x0A] @ join_lines (y # ys)"

definition ReportedError_str :: "world \<Rightarrow> py_instance \<Rightarrow> error + string" where
  "ReportedError_str w self =
     bind_error (getattr self ''level'') (\<lambda>level.
     bind_error (getattr self ''title'') (\<lambda>title.
     let msg = [''ERR.'' @ format w level @ [CHR 0x09] @ format w title] in
     bind_error (getattr self ''message'') (\<lambda>message.
     let msg = (if truthy message then msg @ ['' Message: '' @ format w message] else msg) in
     bind_error (getattr self ''footprint'') (\<lambda>footprint.
     let msg = (if truthy footprint then msg @ ['' Footprint: '' @ format w footprint]
                else msg) in
     bind_error (getattr self ''sheet'') (\<lambda>sheet.
     bind_error (if truthy sheet then Inl AttributeError else Inr msg) (\<lambda>msg.
     bind_error (getattr self ''pcb'') (\<lambda>pcb.
     bind_error (if truthy pcb then Inl AttributeError else Inr msg) (\<lambda>msg.
     Inr (join_lines msg)))))))))"

text \<open>
  \<open>__init__\<close> sets four attributes and then evaluates \<open>str(self)\<close> as the argument of
  \<open>logger.debug\<close>, before the logger decides whether to write.
\<close>

definition ReportedError_init ::
  "string \<Rightarrow> string option \<Rightarrow> int \<Rightarrow> ref option \<Rightarrow> world \<Rightarrow> (error + py_instance) \<times> world" where
  "ReportedError_init title message level footprint w =
     (let self = Map.empty;
          self = self(''title'' \<mapsto> PyStr title);
          self = self(''message'' \<mapsto> (case message of None \<Rightarrow> PyNone | Some m \<Rightarrow> PyStr m));
          self = self(''level'' \<mapsto> PyInt level);
          self = self(''footprint'' \<mapsto>
                   (case footprint of None \<Rightarrow> PyNone | Some r \<Rightarrow> PyFootprint r))
      in case ReportedError_str w self of
           Inl e \<Rightarrow> (Inl e, w)
         | Inr msg \<Rightarrow> (Inr self, w\<lparr>log := log w @ [msg]\<rparr>))"

section \<open>Concrete designs used in the evaluations\<close>

text \<open>A footprint at a position with an orientation, every other attribute at a default.\<close>

definition footprint_at :: "ref \<Rightarrow> VECTOR2I \<Rightarrow> real \<Rightarrow> item" where
  "footprint_at b p deg =
     \<lparr>cls = FOOTPRINT, board = b, parent_group = None, position = p, orientation = deg,
      track_start = (0, 0), track_end = (0, 0), netcode = 0, is_free = False,
      reference = ''U1'', fp_fields = [], pads = [], flipped = False, local_clearance = 0,
      solder_mask_margin = 0, solder_paste_margin = 0, solder_paste_margin_ratio = 0,
      zone_connection = 0\<rparr>"

definition empty_world :: world where
  "empty_world =
     \<lparr>boards = (\<lambda>_. \<lparr>Items = [], Groups = []\<rparr>),
      items = (\<lambda>_. footprint_at 0 (0, 0) 0),
      pcb_groups = (\<lambda>_. \<lparr>g_name = [], g_items = [], g_board = None\<rparr>),
      fresh = 0, log = []\<rparr>"



definition item_of_class :: "item_class \<Rightarrow> ref \<Rightarrow> item" where
  "item_of_class c b = (footprint_at b (0, 0) 0)\<lparr>cls := c\<rparr>"

text \<open>
  A target board (reference 2) with three groups, two of them with the same name. Group 5
  holds a footprint and one item of every other class; track 45 is in no group.
\<close>

definition grouped_world :: world where
  "grouped_world =
     empty_world\<lparr>
       boards := (boards empty_world)
         (2 := \<lparr>Items = [11, 40, 41, 42, 43, 44, 45], Groups = [5, 6, 7]\<rparr>),
       items := (items empty_world)
         (11 := (item_of_class FOOTPRINT 2)\<lparr>parent_group := Some 5\<rparr>,
          40 := (item_of_class PCB_TRACK 2)\<lparr>parent_group := Some 5\<rparr>,
          41 := (item_of_class PCB_VIA 2)\<lparr>parent_group := Some 5\<rparr>,
          42 := (item_of_class ZONE 2)\<lparr>parent_group := Some 5\<rparr>,
          43 := (item_of_class PCB_SHAPE 2)\<lparr>parent_group := Some 5\<rparr>,
          44 := (item_of_class PCB_TEXT 2)\<lparr>parent_group := Some 5\<rparr>,
          45 := item_of_class PCB_TRACK 2),
       pcb_groups := (pcb_groups empty_world)
         (5 := \<lparr>g_name = ''G'', g_items = [11, 40, 41, 42, 43, 44], g_board = Some 2\<rparr>,
          6 := \<lparr>g_name = ''G'', g_items = [], g_board = Some 2\<rparr>,
          7 := \<lparr>g_name = ''H'', g_items = [], g_board = Some 2\<rparr>),
       fresh := 50\<rparr>"

text \<open>
  A template board (reference 0) and a target board (reference 2). Template footprint 10
  has three pads and footprint 12 has two; their target counterparts 11 and 13 have two and
  three. The template also has a track on net 1, a zone on net 2 and a drawing.
\<close>

definition design_world :: world where
  "design_world =
     empty_world\<lparr>
       boards := (boards empty_world)
         (0 := \<lparr>Items = [10, 12, 20, 21, 22], Groups = []\<rparr>,
          2 := \<lparr>Items = [11, 13], Groups = []\<rparr>),
       items := (items empty_world)
         (10 := (footprint_at 0 (0, 0) 0)\<lparr>pads := [1, 2, 3]\<rparr>,
          12 := (footprint_at 0 (20, 0) 0)\<lparr>pads := [1, 2]\<rparr>,
          11 := (footprint_at 2 (100, 50) 0)\<lparr>pads := [7, 8], reference := ''U101''\<rparr>,
          13 := (footprint_at 2 (120, 50) 0)\<lparr>pads := [7, 8, 9], reference := ''U102''\<rparr>,
          20 := (item_of_class PCB_TRACK 0)\<lparr>netcode := 1, track_end := (10, 10)\<rparr>,
          21 := (item_of_class ZONE 0)\<lparr>netcode := 2\<rparr>,
          22 := item_of_class PCB_SHAPE 0),
       fresh := 30\<rparr>"

definition design_pairing :: "ref \<Rightarrow> ref option" where
  "design_pairing r = (if r = 10 then Some 11 else if r = 12 then Some 13 else None)"

definition only_second_pairing :: "ref \<Rightarrow> ref option" where
  "only_second_pairing r = (if r = 12 then Some 13 else None)"

definition design_context :: ReplicateContext where
  "design_context =
     \<lparr>transform = \<lparr>anchor_template = 10, anchor_mutate = 11\<rparr>,
      manager = \<lparr>gm_board = 0, gm_group = 30\<rparr>,
      sourceBoard = 0, targetBoard = 2\<rparr>"

text \<open>
  The two-board design once the group \<open>inst\<close> (reference 30) has been created for it: the
  group is empty and registered on the template board.
\<close>

definition registered_world :: world where
  "registered_world =
     design_world\<lparr>
       boards := (boards design_world)
         (0 := \<lparr>Items = [10, 12, 20, 21, 22], Groups = [30]\<rparr>),
       pcb_groups := (pcb_groups design_world)
         (30 := \<lparr>g_name = ''inst'', g_items = [], g_board = Some 0\<rparr>),
       fresh := 31\<rparr>"

section \<open>Properties of PositionTransform\<close>


















section \<open>Properties of ReportedError\<close>

text \<open>
  Claim C10. For every title, optional message, level and optional footprint, constructing
  a ReportedError raises AttributeError: \<open>__init__\<close> evaluates \<open>str(self)\<close>, and
  \<open>__str__\<close> reads \<open>self.sheet\<close>, which nothing assigns. Nothing is logged and no record
  is returned.
\<close>

theorem ReportedError_init_raises:
  "ReportedError_init title message level footprint w = (Inl AttributeError, w)"
  by (simp add: ReportedError_init_def ReportedError_str_def getattr_def bind_error_def Let_def)

section \<open>Properties of GroupManager\<close>

lemmas grouped_defs = grouped_world_def empty_world_def footprint_at_def item_of_class_def

text \<open>A fold that overwrites its result at every match returns the last match.\<close>

lemma fold_last_match:
  "fold (\<lambda>g r. if P g then Some g else r) gs acc =
     (if filter P gs = [] then acc else Some (last (filter P gs)))"
  by (induction gs arbitrary: acc) auto

lemma find_group_last:
  "find_group w n gs =
     (if filter (\<lambda>g. GetName w g = n) gs = [] then None
      else Some (last (filter (\<lambda>g. GetName w g = n) gs)))"
  unfolding find_group_def by (rule fold_last_match)

text \<open>
  Claim C9, as amended. \<open>_create_or_get\<close> returns an existing group of the given name and
  leaves the design as it is; when several groups of the board have that name it returns
  the last of them in the board's order, and it logs nothing. When no group has the name it
  allocates a new group of that name, registers it on the board after the existing groups
  and returns it.
\<close>

theorem create_or_get_last_match:
  "(let same = filter (\<lambda>g. GetName w g = n) (Groups (boards w b));
        (g, w') = create_or_get b n w
    in if same \<noteq> [] then g = last same \<and> w' = w
       else g = fresh w \<and> GetName w' g = n \<and> g_items (pcb_groups w' g) = []
            \<and> g_board (pcb_groups w' g) = Some b
            \<and> Groups (boards w' b) = Groups (boards w b) @ [g]
            \<and> Items (boards w' b) = Items (boards w b)
            \<and> items w' = items w \<and> log w' = log w)"
  by (simp add: create_or_get_def find_group_last Let_def PCB_GROUP_new_def SetName_def
      Add_group_def GetName_def)

text \<open>
  The theorem at work on a board with the groups 5, 6 and 7: the name K is new, the name H
  belongs to group 7.
\<close>

theorem create_or_get_last_match_witness:
  "filter (\<lambda>g. GetName grouped_world g = ''K'') (Groups (boards grouped_world 2)) = []
   \<and> fst (create_or_get 2 ''K'' grouped_world) = 50
   \<and> GetName (snd (create_or_get 2 ''K'' grouped_world)) 50 = ''K''
   \<and> Groups (boards (snd (create_or_get 2 ''K'' grouped_world)) 2) = [5, 6, 7, 50]
   \<and> filter (\<lambda>g. GetName grouped_world g = ''H'') (Groups (boards grouped_world 2)) = [7]
   \<and> create_or_get 2 ''H'' grouped_world = (7, grouped_world)"
proof -
  have k: "filter (\<lambda>g. GetName grouped_world g = ''K'') (Groups (boards grouped_world 2)) = []"
    by (simp add: grouped_defs GetName_def)
  have h: "filter (\<lambda>g. GetName grouped_world g = ''H'') (Groups (boards grouped_world 2)) = [7]"
    by (simp add: grouped_defs GetName_def)
  have f: "fresh grouped_world = 50" "Groups (boards grouped_world 2) = [5, 6, 7]"
    by (simp_all add: grouped_defs)
  have K: "fst (create_or_get 2 ''K'' grouped_world) = fresh grouped_world
           \<and> GetName (snd (create_or_get 2 ''K'' grouped_world))
                 (fst (create_or_get 2 ''K'' grouped_world)) = ''K''
           \<and> Groups (boards (snd (create_or_get 2 ''K'' grouped_world)) 2)
               = Groups (boards grouped_world 2) @ [fst (create_or_get 2 ''K'' grouped_world)]"
    using create_or_get_last_match [of grouped_world "''K''" 2]
    by (auto simp: k Let_def split_def)
  have H: "create_or_get 2 ''H'' grouped_world = (7, grouped_world)"
    using create_or_get_last_match [of grouped_world "''H''" 2]
    by (simp add: h Let_def split_def prod_eq_iff)
  from K H show ?thesis unfolding k h by (auto simp: f)
qed

text \<open>
  Counterexample to C9 as stated: groups 5 and 6 both have the name G; the first match is
  5, the call returns 6, and the log stays empty.
\<close>

theorem create_or_get_first_match_counterexample:
  "filter (\<lambda>g. GetName grouped_world g = ''G'') (Groups (boards grouped_world 2)) = [5, 6]
   \<and> create_or_get 2 ''G'' grouped_world = (6, grouped_world)
   \<and> log grouped_world = []"
  by (simp add: create_or_get_def find_group_def grouped_defs GetName_def)

text \<open>The three paths of \<open>move\<close>, and what the host's \<open>AddItem\<close> establishes.\<close>

lemma move_None:
  "GetParentGroup w item = None \<Longrightarrow> move M item w = (False, AddItem (gm_group M) item w)"
  by (simp add: move_def Let_def)

lemma move_same_name:
  "GetParentGroup w item = Some q \<Longrightarrow> GetName w q = GetName w (gm_group M)
     \<Longrightarrow> move M item w = (False, w)"
  by (simp add: move_def Let_def)

lemma move_other_name:
  "GetParentGroup w item = Some q \<Longrightarrow> GetName w q \<noteq> GetName w (gm_group M)
     \<Longrightarrow> move M item w = (True, AddItem (gm_group M) item (RemoveItem q item w))"
  by (simp add: move_def Let_def)

lemma GetParentGroup_AddItem: "GetParentGroup (AddItem g r w) r = Some g"
  by (simp add: AddItem_def GetParentGroup_def RemoveItem_def Let_def split: option.splits)

lemma GetName_AddItem: "GetName (AddItem g r w) x = GetName w x"
  by (simp add: AddItem_def GetParentGroup_def RemoveItem_def GetName_def Let_def split: option.splits)

lemma member_AddItem: "r \<in> set (g_items (pcb_groups (AddItem g r w) g))"
  by (simp add: AddItem_def GetParentGroup_def RemoveItem_def Let_def split: option.splits)

lemma GetParentGroup_RemoveItem: "GetParentGroup (RemoveItem q r w) r = None"
  by (simp add: GetParentGroup_def RemoveItem_def)

lemma left_old_group:
  "q \<noteq> g \<Longrightarrow> r \<notin> set (g_items (pcb_groups (AddItem g r (RemoveItem q r w)) q))"
  by (simp add: AddItem_def GetParentGroup_RemoveItem Let_def) (simp add: RemoveItem_def)

lemma move_twice: "move M item (snd (move M item w)) = (False, snd (move M item w))"
proof (cases "GetParentGroup w item")
  case None
  then show ?thesis
    by (simp add: move_None move_same_name [OF GetParentGroup_AddItem] GetName_AddItem)
next
  case (Some q)
  show ?thesis
  proof (cases "GetName w q = GetName w (gm_group M)")
    case True
    with Some show ?thesis by (simp add: move_same_name)
  next
    case False
    with Some show ?thesis
      by (simp add: move_other_name move_same_name [OF GetParentGroup_AddItem] GetName_AddItem)
  qed
qed

text \<open>
  Claim C7, as amended. \<open>move\<close> returns True exactly when the item was in a group whose
  name differs from the managed group's name. An item that is in a group of the managed
  group's name (the managed group itself or another group of that name) is left where it is
  and the design is unchanged. Any other item is taken out of the group it was in, if any,
  and ends up in the managed group. A second \<open>move\<close> of the same item changes nothing
  and returns False.
\<close>

theorem move_claims_by_name:
  "(let p = GetParentGroup w item; g = gm_group M; (moved, w') = move M item w
    in (moved \<longleftrightarrow> (\<exists>q. p = Some q \<and> GetName w q \<noteq> GetName w g))
       \<and> (if \<exists>q. p = Some q \<and> GetName w q = GetName w g then w' = w
          else GetParentGroup w' item = Some g \<and> item \<in> set (g_items (pcb_groups w' g))
               \<and> (\<forall>q. p = Some q \<longrightarrow> item \<notin> set (g_items (pcb_groups w' q))))
       \<and> move M item w' = (False, w'))"
proof (cases "GetParentGroup w item")
  case None
  then show ?thesis
    using move_twice [of M item w]
    by (simp add: move_None GetParentGroup_AddItem member_AddItem)
next
  case (Some q)
  show ?thesis
  proof (cases "GetName w q = GetName w (gm_group M)")
    case True
    with Some show ?thesis
      using move_twice [of M item w] by (simp add: move_same_name)
  next
    case False
    then have "q \<noteq> gm_group M" by auto
    with Some False show ?thesis
      using move_twice [of M item w]
      by (simp add: move_other_name GetParentGroup_AddItem member_AddItem left_old_group)
  qed
qed

text \<open>The theorem at work: footprint 11 is in group 5 (name G) and is claimed for group 7 (name H).\<close>

theorem move_claims_by_name_witness:
  "GetParentGroup grouped_world 11 = Some 5
   \<and> GetName grouped_world 5 \<noteq> GetName grouped_world 7
   \<and> fst (move \<lparr>gm_board = 2, gm_group = 7\<rparr> 11 grouped_world) = True
   \<and> GetParentGroup (snd (move \<lparr>gm_board = 2, gm_group = 7\<rparr> 11 grouped_world)) 11 = Some 7
   \<and> 11 \<in> set (g_items (pcb_groups (snd (move \<lparr>gm_board = 2, gm_group = 7\<rparr> 11 grouped_world)) 7))
   \<and> 11 \<notin> set (g_items (pcb_groups (snd (move \<lparr>gm_board = 2, gm_group = 7\<rparr> 11 grouped_world)) 5))
   \<and> move \<lparr>gm_board = 2, gm_group = 7\<rparr> 11
        (snd (move \<lparr>gm_board = 2, gm_group = 7\<rparr> 11 grouped_world))
      = (False, snd (move \<lparr>gm_board = 2, gm_group = 7\<rparr> 11 grouped_world))"
proof -
  have p: "GetParentGroup grouped_world 11 = Some 5"
    by (simp add: GetParentGroup_def grouped_defs)
  have n: "GetName grouped_world 5 \<noteq> GetName grouped_world 7"
    by (simp add: GetName_def grouped_defs)
  show ?thesis
    using move_claims_by_name [of grouped_world 11 "\<lparr>gm_board = 2, gm_group = 7\<rparr>"] p n
    by (simp add: Let_def split_def)
qed

text \<open>
  Counterexample to C7 as stated: footprint 11 is in group 5; the managed group is 6, a
  different group with the same name G. The item is not a member of the managed group, and
  \<open>move\<close> does not add it.
\<close>

theorem move_same_name_counterexample:
  "GetParentGroup grouped_world 11 = Some 5
   \<and> GetName grouped_world 5 = GetName grouped_world 6
   \<and> 11 \<notin> set (g_items (pcb_groups grouped_world 6))
   \<and> move \<lparr>gm_board = 2, gm_group = 6\<rparr> 11 grouped_world = (False, grouped_world)"
  by (simp add: move_def GetParentGroup_def GetName_def grouped_defs Let_def)

section \<open>Properties of the purge\<close>

text \<open>
  Every class but FOOTPRINT is an instance of a class to remove. One \<open>RemoveNative\<close>
  touches the removed item only; the loop is followed by induction on the group's items.
\<close>

lemma volatile_iff: "isinstance c itemTypesToRemove \<longleftrightarrow> c \<noteq> FOOTPRINT"
  by (cases c) (simp_all add: isinstance_def itemTypesToRemove_def)

lemma cls_RemoveNative: "cls (items (RemoveNative b x w) r) = cls (items w r)"
  by (simp add: RemoveNative_def RemoveItem_def GetParentGroup_def Let_def split: option.splits)

lemma items_RemoveNative: "r \<noteq> x \<Longrightarrow> items (RemoveNative b x w) r = items w r"
  by (simp add: RemoveNative_def RemoveItem_def GetParentGroup_def Let_def split: option.splits)

lemma Items_RemoveNative:
  "Items (boards (RemoveNative b x w) b') =
     (if b' = b then removeAll x (Items (boards w b)) else Items (boards w b'))"
  by (simp add: RemoveNative_def RemoveItem_def GetParentGroup_def Let_def split: option.splits)

lemma Groups_RemoveNative: "Groups (boards (RemoveNative b x w) b') = Groups (boards w b')"
  by (simp add: RemoveNative_def RemoveItem_def GetParentGroup_def Let_def split: option.splits)

lemma g_items_RemoveNative:
  "r \<noteq> x \<Longrightarrow> r \<in> set (g_items (pcb_groups (RemoveNative b x w) g'))
                 \<longleftrightarrow> r \<in> set (g_items (pcb_groups w g'))"
  by (simp add: RemoveNative_def RemoveItem_def GetParentGroup_def Let_def split: option.splits)

lemma log_RemoveNative: "log (RemoveNative b x w) = log w"
  by (simp add: RemoveNative_def RemoveItem_def GetParentGroup_def Let_def split: option.splits)

lemma purge_loop_returns: "fst (purge_loop (Some b) xs w) = Inr ()"
  by (induction xs arbitrary: w) simp_all


lemma purge_loop_Groups:
  "Groups (boards (snd (purge_loop (Some b) xs w)) b') = Groups (boards w b')"
  by (induction xs arbitrary: w) (simp_all add: Groups_RemoveNative)

lemma filter_removeAll_member:
  "Q x \<Longrightarrow> filter (\<lambda>r. \<not> (r \<in> set xs \<and> Q r)) (removeAll x ys)
          = filter (\<lambda>r. \<not> (r \<in> set (x # xs) \<and> Q r)) ys"
  by (induction ys) auto

lemma purge_loop_Items:
  "Items (boards (snd (purge_loop (Some b) xs w)) b') =
     (if b' = b
      then filter (\<lambda>r. \<not> (r \<in> set xs \<and> cls (items w r) \<noteq> FOOTPRINT)) (Items (boards w b))
      else Items (boards w b'))"
proof (induction xs arbitrary: w)
  case Nil
  show ?case by simp
next
  case (Cons x xs)
  show ?case
  proof (cases "cls (items w x) = FOOTPRINT")
    case True
    then have "\<And>r. (r \<in> set (x # xs) \<and> cls (items w r) \<noteq> FOOTPRINT)
                  \<longleftrightarrow> (r \<in> set xs \<and> cls (items w r) \<noteq> FOOTPRINT)"
      by auto
    with True show ?thesis by (simp add: Cons.IH volatile_iff)
  next
    case False
    have "filter (\<lambda>r. \<not> (r \<in> set xs \<and> cls (items w r) \<noteq> FOOTPRINT))
            (removeAll x (Items (boards w b)))
          = filter (\<lambda>r. \<not> (r \<in> set (x # xs) \<and> cls (items w r) \<noteq> FOOTPRINT))
              (Items (boards w b))"
      using False by (rule filter_removeAll_member)
    with False show ?thesis
      by (simp add: Cons.IH volatile_iff Items_RemoveNative cls_RemoveNative)
  qed
qed

lemma purge_loop_items:
  "\<not> (r \<in> set xs \<and> cls (items w r) \<noteq> FOOTPRINT)
     \<Longrightarrow> items (snd (purge_loop (Some b) xs w)) r = items w r"
proof (induction xs arbitrary: w)
  case Nil
  show ?case by simp
next
  case (Cons x xs)
  show ?case
  proof (cases "cls (items w x) = FOOTPRINT")
    case True
    from Cons.prems have "\<not> (r \<in> set xs \<and> cls (items w r) \<noteq> FOOTPRINT)"
      by auto
    with True show ?thesis by (simp add: Cons.IH volatile_iff)
  next
    case False
    with Cons.prems have ne: "r \<noteq> x" by auto
    from Cons.prems have "\<not> (r \<in> set xs \<and> cls (items (RemoveNative b x w) r) \<noteq> FOOTPRINT)"
      by (auto simp: cls_RemoveNative)
    then show ?thesis
      using False ne by (simp add: Cons.IH volatile_iff items_RemoveNative)
  qed
qed

lemma purge_loop_g_items:
  "\<not> (r \<in> set xs \<and> cls (items w r) \<noteq> FOOTPRINT)
     \<Longrightarrow> r \<in> set (g_items (pcb_groups (snd (purge_loop (Some b) xs w)) g'))
           \<longleftrightarrow> r \<in> set (g_items (pcb_groups w g'))"
proof (induction xs arbitrary: w)
  case Nil
  show ?case by simp
next
  case (Cons x xs)
  show ?case
  proof (cases "cls (items w x) = FOOTPRINT")
    case True
    from Cons.prems have "\<not> (r \<in> set xs \<and> cls (items w r) \<noteq> FOOTPRINT)"
      by auto
    with True show ?thesis by (simp add: Cons.IH volatile_iff)
  next
    case False
    with Cons.prems have ne: "r \<noteq> x" by auto
    from Cons.prems have "\<not> (r \<in> set xs \<and> cls (items (RemoveNative b x w) r) \<noteq> FOOTPRINT)"
      by (auto simp: cls_RemoveNative)
    then show ?thesis
      using False ne by (simp add: Cons.IH volatile_iff g_items_RemoveNative)
  qed
qed

lemma purge_loop_log: "log (snd (purge_loop (Some b) xs w)) = log w"
  by (induction xs arbitrary: w) (simp_all add: log_RemoveNative)

text \<open>
  For a group that is registered on a board, the purge returns normally and takes off that
  board exactly the items of the group that are not footprints. Every footprint keeps its
  attributes, its place on every board and its membership in every group. Items of the
  group that are on another board are not taken off it.
\<close>

lemma purge_on_group_board:
  assumes "g_board (pcb_groups w g) = Some b"
  shows "fst (clear_volatile_items g w) = Inr ()
    \<and> (let w' = snd (clear_volatile_items g w)
       in Items (boards w' b) =
            filter (\<lambda>r. \<not> (r \<in> set (g_items (pcb_groups w g)) \<and> cls (items w r) \<noteq> FOOTPRINT))
              (Items (boards w b))
          \<and> (\<forall>r \<in> set (g_items (pcb_groups w g)).
                cls (items w r) \<in> {PCB_TRACK, PCB_VIA, ZONE, PCB_SHAPE, PCB_TEXT}
                \<longrightarrow> r \<notin> set (Items (boards w' b)))
          \<and> (\<forall>r. cls (items w r) = FOOTPRINT \<longrightarrow>
                items w' r = items w r
                \<and> (\<forall>b'. r \<in> set (Items (boards w' b')) \<longleftrightarrow> r \<in> set (Items (boards w b')))
                \<and> (\<forall>g'. r \<in> set (g_items (pcb_groups w' g'))
                          \<longleftrightarrow> r \<in> set (g_items (pcb_groups w g')))))"
proof -
  let ?xs = "g_items (pcb_groups w g)"
  let ?w' = "snd (purge_loop (Some b) ?xs w)"
  have 1: "fst (purge_loop (Some b) ?xs w) = Inr ()"
    by (rule purge_loop_returns)
  have 2: "Items (boards ?w' b) =
             filter (\<lambda>r. \<not> (r \<in> set ?xs \<and> cls (items w r) \<noteq> FOOTPRINT)) (Items (boards w b))"
    by (simp add: purge_loop_Items)
  have 3: "r \<notin> set (Items (boards ?w' b))"
    if "r \<in> set ?xs" "cls (items w r) \<in> {PCB_TRACK, PCB_VIA, ZONE, PCB_SHAPE, PCB_TEXT}" for r
    using that by (auto simp: 2)
  have 4: "items ?w' r = items w r" if "cls (items w r) = FOOTPRINT" for r
    using that by (simp add: purge_loop_items)
  have 5: "r \<in> set (Items (boards ?w' b')) \<longleftrightarrow> r \<in> set (Items (boards w b'))"
    if "cls (items w r) = FOOTPRINT" for r b'
    using that by (simp add: purge_loop_Items)
  have 6: "r \<in> set (g_items (pcb_groups ?w' g')) \<longleftrightarrow> r \<in> set (g_items (pcb_groups w g'))"
    if "cls (items w r) = FOOTPRINT" for r g'
    using that by (simp add: purge_loop_g_items)
  show ?thesis
    unfolding clear_volatile_items_def assms Let_def
    using 1 2 3 4 5 6 by blast
qed

section \<open>Properties of ReplicateContext\<close>

lemmas world_defs = design_world_def empty_world_def footprint_at_def item_of_class_def

text \<open>
  Claim C4 fails on the code. With the template anchor 10 on board 0 and the target anchor
  11 on board 2, the context's group manager is built over board 0. After the target
  anchor is claimed it is in the group of the configured name, but that group is registered
  on the template board; the target board has no group.
\<close>

theorem group_registered_on_template_board:
  "(let (context, w1) = ReplicateContext_init 10 11 ''inst'' design_world;
        (moved, w2) = move (manager context) 11 w1
    in sourceBoard context = 0 \<and> targetBoard context = 2
       \<and> gm_board (manager context) = 0
       \<and> board (items w2 11) = 2
       \<and> GetParentGroup w2 11 = Some (gm_group (manager context))
       \<and> GetName w2 (gm_group (manager context)) = ''inst''
       \<and> g_board (pcb_groups w2 (gm_group (manager context))) = Some 0
       \<and> Groups (boards w2 0) = [gm_group (manager context)]
       \<and> Groups (boards w2 2) = [])"
  by (simp add: ReplicateContext_init_def GroupManager_init_def create_or_get_def
      find_group_def PCB_GROUP_new_def SetName_def Add_group_def world_defs
      move_def GetParentGroup_def GetName_def AddItem_def RemoveItem_def
      Let_def split_def)

section \<open>Properties of the footprint loop\<close>

lemma enforce_position_footprints_raises:
  "enforce_position_footprints context fpTranslator w = (Inl NameError, w)"
  by (simp add: enforce_position_footprints_def load_name_def module_globals_def)

text \<open>
  No step of the footprint copy writes to the log, and none changes a pad list.
\<close>

lemma log_update_item: "log (update_item r f w) = log w"
  by (simp add: update_item_def)

lemma log_RemoveItem: "log (RemoveItem g r w) = log w"
  by (simp add: RemoveItem_def)

lemma log_AddItem: "log (AddItem g r w) = log w"
  by (simp add: AddItem_def RemoveItem_def Let_def split: option.splits)

lemma log_move: "log (snd (move M r w)) = log w"
  by (simp add: move_def Let_def log_AddItem log_RemoveItem split: option.splits)

lemma log_clone_fields: "log (fold (clone_field_into F T t) fs w) = log w"
  by (induction fs arbitrary: w) (simp_all add: clone_field_into_def Let_def log_update_item)

lemma log_copy_footprint_data: "log (copy_footprint_data F s t w) = log w"
  by (simp add: copy_footprint_data_def copy_footprint_fields_def Flip_def SetPosition_def
      Let_def log_update_item log_clone_fields)

lemma pads_clone_fields: "pads (items (fold (clone_field_into F T t) fs w) r) = pads (items w r)"
  by (induction fs arbitrary: w) (simp_all add: clone_field_into_def Let_def update_item_def)

lemma pads_copy_footprint_fields: "pads (items (copy_footprint_fields F s t w) r) = pads (items w r)"
  by (simp add: copy_footprint_fields_def Let_def update_item_def pads_clone_fields)

lemma pads_copy_footprint_data: "pads (items (copy_footprint_data F s t w) r) = pads (items w r)"
  by (simp add: copy_footprint_data_def Flip_def SetPosition_def Let_def update_item_def
      pads_copy_footprint_fields)

text \<open>
  The pad loop succeeds exactly when the target's pad list reaches as far as the source's;
  otherwise it raises IndexError at the first index past the target's end.
\<close>

lemma pads_loop_within:
  "i + length ps \<le> length ts
     \<Longrightarrow> pads_loop ps ts i m = Inr (fold (\<lambda>(s, t) m. m(s \<mapsto> t)) (zip ps (drop i ts)) m)"
proof (induction ps arbitrary: i m)
  case Nil
  show ?case by simp
next
  case (Cons p ps)
  then have lt: "i < length ts" by simp
  then have "drop i ts = ts ! i # drop (Suc i) ts"
    by (simp add: Cons_nth_drop_Suc)
  with Cons lt show ?case by simp
qed

lemma pads_loop_beyond:
  "length ts < i + length ps \<Longrightarrow> i \<le> length ts \<Longrightarrow> pads_loop ps ts i m = Inl IndexError"
  by (induction ps arbitrary: i m) auto

lemma footprints_loop_log: "log (snd (footprints_loop F ctx f xs m w)) = log w"
proof (induction xs arbitrary: m w)
  case Nil
  show ?case by simp
next
  case (Cons x xs)
  show ?case
    by (simp add: Cons.IH Let_def split_def log_move log_copy_footprint_data
        split: option.splits sum.splits)
qed

lemma design_footprints: "GetFootprints design_world 0 = [10, 12]"
  by (simp add: GetFootprints_def items_of_class_def isinstance_def world_defs)

lemma design_pads:
  "pads (items design_world 10) = [1, 2, 3]" "pads (items design_world 11) = [7, 8]"
  "pads (items design_world 12) = [1, 2]" "pads (items design_world 13) = [7, 8, 9]"
  by (simp_all add: world_defs)

text \<open>
  Where the target has at least as many pads as the template, one pass of the footprint
  loop extends the mapping, for every pad index of the template, by the entry from the
  template pad's net to the net of the target pad at the same index, and logs nothing.
\<close>

lemma pads_mapped_by_index:
  assumes "fpTranslator src = Some tgt"
    and "length (pads (items w src)) \<le> length (pads (items w tgt))"
  shows "fst (footprints_loop F ctx fpTranslator [src] m w) =
           Inr (fold (\<lambda>(s, t) m. m(s \<mapsto> t)) (zip (pads (items w src)) (pads (items w tgt))) m)
         \<and> log (snd (footprints_loop F ctx fpTranslator [src] m w)) = log w"
proof -
  have "pads_loop (pads (items w src)) (pads (items w tgt)) 0 m =
          Inr (fold (\<lambda>(s, t) m. m(s \<mapsto> t)) (zip (pads (items w src)) (pads (items w tgt))) m)"
    using pads_loop_within [of 0 "pads (items w src)" "pads (items w tgt)" m] assms(2) by simp
  then show ?thesis
    using assms(1) by (simp add: pads_copy_footprint_data footprints_loop_log Let_def split_def
        log_move log_copy_footprint_data)
qed

text \<open>
  Claim C3 fails on the code. Template footprint 10 has three pads and its paired target
  11 has two. The function as written raises NameError at line 299 and returns no mapping.
  The loop after that line raises IndexError at the third pad (line 319), so it returns no
  two-entry mapping either, and nothing is logged: there is no WARNING.
\<close>

theorem pad_mismatch_raises:
  "design_pairing 10 = Some 11
   \<and> length (pads (items design_world 10)) = 3
   \<and> length (pads (items design_world 11)) = 2
   \<and> fst (enforce_position_footprints_loop F design_context design_pairing design_world)
       = Inl IndexError
   \<and> log (snd (enforce_position_footprints_loop F design_context design_pairing design_world))
       = []
   \<and> enforce_position_footprints design_context design_pairing design_world
       = (Inl NameError, design_world)"
proof -
  have s: "sourceBoard design_context = 0"
    by (simp add: design_context_def)
  have p: "design_pairing 10 = Some 11"
    by (simp add: design_pairing_def)
  have e: "log design_world = []"
    by (simp add: world_defs)
  have "pads_loop [1, 2, 3] [7, 8] 0 Map.empty = Inl IndexError"
    by simp
  then have "fst (enforce_position_footprints_loop F design_context design_pairing design_world)
               = Inl IndexError"
    by (simp add: enforce_position_footprints_loop_def s design_footprints p
        pads_copy_footprint_data design_pads)
  then show ?thesis
    by (simp add: p design_pads enforce_position_footprints_raises
        enforce_position_footprints_loop_def footprints_loop_log e)
qed

text \<open>
  Claim C6, as amended. A template footprint for which the pairing function returns None
  is skipped by the footprint loop: the loop gives the same mapping and the same design
  with and without it, a pass over it alone changes neither, and the loop logs nothing.
\<close>

theorem unpaired_footprint_skipped:
  assumes "fpTranslator fp = None"
  shows "footprints_loop F ctx fpTranslator (xs @ fp # ys) m w =
           footprints_loop F ctx fpTranslator (xs @ ys) m w
         \<and> footprints_loop F ctx fpTranslator [fp] m w = (Inr m, w)
         \<and> log (snd (footprints_loop F ctx fpTranslator (xs @ fp # ys) m w)) = log w"
proof -
  have "footprints_loop F ctx fpTranslator (xs @ fp # ys) m w =
          footprints_loop F ctx fpTranslator (xs @ ys) m w"
  proof (induction xs arbitrary: m w)
    case Nil
    show ?case using assms by simp
  next
    case (Cons x xs)
    show ?case
      by (simp add: Cons.IH Let_def split_def split: option.splits sum.splits)
  qed
  then show ?thesis using assms by (simp add: footprints_loop_log)
qed

text \<open>The theorem at work: footprint 10 has no counterpart under the pairing, 12 has.\<close>

theorem unpaired_footprint_skipped_witness:
  "\<forall>F. only_second_pairing 10 = None
   \<and> footprints_loop F design_context only_second_pairing ([] @ 10 # [12]) Map.empty design_world
       = footprints_loop F design_context only_second_pairing ([] @ [12]) Map.empty design_world
   \<and> footprints_loop F design_context only_second_pairing [10] Map.empty design_world
       = (Inr Map.empty, design_world)"
proof
  fix F
  have n: "only_second_pairing 10 = None"
    by (simp add: only_second_pairing_def)
  from unpaired_footprint_skipped [where F = F and fpTranslator = only_second_pairing
      and fp = 10 and ctx = design_context and xs = "[]" and ys = "[12]" and m = Map.empty
      and w = design_world, OF n]
  show "only_second_pairing 10 = None
   \<and> footprints_loop F design_context only_second_pairing ([] @ 10 # [12]) Map.empty design_world
       = footprints_loop F design_context only_second_pairing ([] @ [12]) Map.empty design_world
   \<and> footprints_loop F design_context only_second_pairing [10] Map.empty design_world
       = (Inr Map.empty, design_world)"
    using n by blast
qed

text \<open>
  Counterexample to C6 as stated: with a pairing that resolves no footprint, the loop
  returns the empty mapping and the unchanged design, whose log is empty: there is no INFO
  diagnostic. The function as written raises NameError before the loop.
\<close>

theorem no_info_diagnostic_counterexample:
  "GetFootprints design_world 0 = [10, 12]
   \<and> (\<forall>F. enforce_position_footprints_loop F design_context (\<lambda>r. None) design_world
             = (Inr Map.empty, design_world))
   \<and> log design_world = []
   \<and> enforce_position_footprints design_context (\<lambda>r. None) design_world
       = (Inl NameError, design_world)"
proof -
  have s: "sourceBoard design_context = 0"
    by (simp add: design_context_def)
  have e: "log design_world = []"
    by (simp add: world_defs)
  show ?thesis
    by (simp add: enforce_position_footprints_loop_def s design_footprints e
        enforce_position_footprints_raises)
qed

section \<open>Properties of the drawing, track and zone copies\<close>

text \<open>
  How the host operations and \<open>move\<close> act on the parts of the design: the allocator, the
  boards, the groups and the items.
\<close>

lemma fresh_RemoveItem: "fresh (RemoveItem g r w) = fresh w"
  by (simp add: RemoveItem_def)

lemma fresh_AddItem: "fresh (AddItem g r w) = fresh w"
  by (simp add: AddItem_def RemoveItem_def Let_def split: option.splits)

lemma fresh_move: "fresh (snd (move M r w)) = fresh w"
  by (simp add: move_def Let_def fresh_AddItem fresh_RemoveItem split: option.splits)

lemma items_RemoveItem: "x \<noteq> r \<Longrightarrow> items (RemoveItem g r w) x = items w x"
  by (simp add: RemoveItem_def)

lemma items_AddItem: "x \<noteq> r \<Longrightarrow> items (AddItem g r w) x = items w x"
  by (simp add: AddItem_def RemoveItem_def Let_def split: option.splits)

lemma items_move: "x \<noteq> r \<Longrightarrow> items (snd (move M r w)) x = items w x"
  by (simp add: move_def Let_def items_AddItem items_RemoveItem split: option.splits)

lemma boards_RemoveItem: "boards (RemoveItem g r w) = boards w"
  by (simp add: RemoveItem_def)

lemma boards_AddItem: "boards (AddItem g r w) = boards w"
  by (simp add: AddItem_def RemoveItem_def Let_def split: option.splits)

lemma boards_move: "boards (snd (move M r w)) = boards w"
  by (simp add: move_def Let_def boards_AddItem boards_RemoveItem split: option.splits)

text \<open>An item in no group is put into the managed group, and only its group link changes.\<close>

lemma move_parentless:
  assumes "GetParentGroup w r = None"
  shows "pcb_groups (snd (move M r w)) =
           (pcb_groups w)(gm_group M := (pcb_groups w (gm_group M))
              \<lparr>g_items := g_items (pcb_groups w (gm_group M)) @ [r]\<rparr>)"
    and "items (snd (move M r w)) r = (items w r)\<lparr>parent_group := Some (gm_group M)\<rparr>"
  using assms by (simp_all add: move_def Let_def AddItem_def)

lemma Duplicate_ref: "fst (Duplicate r w) = fresh w"
  by (simp add: Duplicate_def)

lemma fresh_Duplicate: "fresh (snd (Duplicate r w)) = Suc (fresh w)"
  by (simp add: Duplicate_def)

lemma items_Duplicate:
  "items (snd (Duplicate r w)) x =
     (if x = fresh w then (items w r)\<lparr>parent_group := None\<rparr> else items w x)"
  by (simp add: Duplicate_def)

lemma boards_Duplicate: "boards (snd (Duplicate r w)) = boards w"
  by (simp add: Duplicate_def)

lemma pcb_groups_Duplicate: "pcb_groups (snd (Duplicate r w)) = pcb_groups w"
  by (simp add: Duplicate_def)

lemma fresh_Add: "fresh (Add b r w) = fresh w"
  by (simp add: Add_def)

lemma items_Add: "items (Add b r w) x = (if x = r then (items w r)\<lparr>board := b\<rparr> else items w x)"
  by (simp add: Add_def)

lemma boards_Add:
  "boards (Add b r w) = (boards w)(b := (boards w b)\<lparr>Items := Items (boards w b) @ [r]\<rparr>)"
  by (simp add: Add_def)

lemma pcb_groups_Add: "pcb_groups (Add b r w) = pcb_groups w"
  by (simp add: Add_def)

lemma fresh_update_item: "fresh (update_item r f w) = fresh w"
  by (simp add: update_item_def)

lemma items_update_item:
  "items (update_item r f w) x = (if x = r then f (items w r) else items w x)"
  by (simp add: update_item_def)

lemma boards_update_item: "boards (update_item r f w) = boards w"
  by (simp add: update_item_def)

lemma pcb_groups_update_item: "pcb_groups (update_item r f w) = pcb_groups w"
  by (simp add: update_item_def)

lemmas host_effects =
  Duplicate_ref fresh_Duplicate items_Duplicate boards_Duplicate pcb_groups_Duplicate
  fresh_Add items_Add boards_Add pcb_groups_Add
  fresh_update_item items_update_item boards_update_item pcb_groups_update_item
  fresh_move boards_move

lemmas setter_defs = SetPosition_def SetNet_def Move_def Rotate_about_position_def FindNet_def

text \<open>
  Each copy loop prepares the copy and then claims it. What the claim of an item that is in
  no group changes:
\<close>

lemma claimed_copy:
  assumes "W = snd (move M r v)" and "GetParentGroup v r = None"
  shows "fresh W = fresh v" and "boards W = boards v"
    and "pcb_groups W =
           (pcb_groups v)(gm_group M := (pcb_groups v (gm_group M))
              \<lparr>g_items := g_items (pcb_groups v (gm_group M)) @ [r]\<rparr>)"
    and "\<And>x. x \<noteq> r \<Longrightarrow> items W x = items v x"
    and "cls (items W r) = cls (items v r)"
    and "netcode (items W r) = netcode (items v r)"
    and "GetParentGroup W r = Some (gm_group M)"
  using assms
  by (simp_all add: fresh_move boards_move items_move move_parentless GetParentGroup_def)

text \<open>
  One pass of a copy loop allocates one reference for the copy, appends it to the target
  board and to the managed group, and changes no other item. The copy has the class of its
  source; a copied track or zone has the net that the mapping gives for the source's net.
\<close>

lemma copy_drawing_prepared:
  "\<exists>v. copy_drawing F ctx d w = snd (move (manager ctx) (fresh w) v)
       \<and> GetParentGroup v (fresh w) = None
       \<and> fresh v = Suc (fresh w)
       \<and> boards v = (boards w)(targetBoard ctx := (boards w (targetBoard ctx))
                        \<lparr>Items := Items (boards w (targetBoard ctx)) @ [fresh w]\<rparr>)
       \<and> pcb_groups v = pcb_groups w
       \<and> (\<forall>x. x \<noteq> fresh w \<longrightarrow> items v x = items w x)
       \<and> cls (items v (fresh w)) = cls (items w d)"
  unfolding copy_drawing_def Let_def split_def Duplicate_ref
  by (intro exI conjI, rule refl) (simp_all add: GetParentGroup_def setter_defs host_effects)

lemma copy_drawing_effect:
  "fresh (copy_drawing F ctx d w) = Suc (fresh w)"
  "boards (copy_drawing F ctx d w) =
     (boards w)(targetBoard ctx := (boards w (targetBoard ctx))
        \<lparr>Items := Items (boards w (targetBoard ctx)) @ [fresh w]\<rparr>)"
  "pcb_groups (copy_drawing F ctx d w) =
     (pcb_groups w)(gm_group (manager ctx) := (pcb_groups w (gm_group (manager ctx)))
        \<lparr>g_items := g_items (pcb_groups w (gm_group (manager ctx))) @ [fresh w]\<rparr>)"
  "x \<noteq> fresh w \<Longrightarrow> items (copy_drawing F ctx d w) x = items w x"
  "cls (items (copy_drawing F ctx d w) (fresh w)) = cls (items w d)"
  "GetParentGroup (copy_drawing F ctx d w) (fresh w) = Some (gm_group (manager ctx))"
proof -
  from copy_drawing_prepared [of F ctx d w] obtain v where
    c: "copy_drawing F ctx d w = snd (move (manager ctx) (fresh w) v)"
    and p: "GetParentGroup v (fresh w) = None"
    and v: "fresh v = Suc (fresh w)"
      "boards v = (boards w)(targetBoard ctx := (boards w (targetBoard ctx))
                     \<lparr>Items := Items (boards w (targetBoard ctx)) @ [fresh w]\<rparr>)"
      "pcb_groups v = pcb_groups w"
      "\<forall>x. x \<noteq> fresh w \<longrightarrow> items v x = items w x"
      "cls (items v (fresh w)) = cls (items w d)"
    by blast
  note e = claimed_copy [OF c p]
  show "fresh (copy_drawing F ctx d w) = Suc (fresh w)"
    by (simp add: e v)
  show "boards (copy_drawing F ctx d w) =
     (boards w)(targetBoard ctx := (boards w (targetBoard ctx))
        \<lparr>Items := Items (boards w (targetBoard ctx)) @ [fresh w]\<rparr>)"
    by (simp add: e v)
  show "pcb_groups (copy_drawing F ctx d w) =
     (pcb_groups w)(gm_group (manager ctx) := (pcb_groups w (gm_group (manager ctx)))
        \<lparr>g_items := g_items (pcb_groups w (gm_group (manager ctx))) @ [fresh w]\<rparr>)"
    by (simp add: e v)
  show "x \<noteq> fresh w \<Longrightarrow> items (copy_drawing F ctx d w) x = items w x"
    by (simp add: e v)
  show "cls (items (copy_drawing F ctx d w) (fresh w)) = cls (items w d)"
    by (simp add: e v)
  show "GetParentGroup (copy_drawing F ctx d w) (fresh w) = Some (gm_group (manager ctx))"
    by (rule e)
qed

lemma copy_trace_prepared:
  "\<exists>v. copy_trace F ctx m t w = snd (move (manager ctx) (fresh w) v)
       \<and> GetParentGroup v (fresh w) = None
       \<and> fresh v = Suc (fresh w)
       \<and> boards v = (boards w)(targetBoard ctx := (boards w (targetBoard ctx))
                        \<lparr>Items := Items (boards w (targetBoard ctx)) @ [fresh w]\<rparr>)
       \<and> pcb_groups v = pcb_groups w
       \<and> (\<forall>x. x \<noteq> fresh w \<longrightarrow> items v x = items w x)
       \<and> cls (items v (fresh w)) = cls (items w t)
       \<and> netcode (items v (fresh w)) = dict_get m (netcode (items w t)) 0"
  unfolding copy_trace_def Let_def split_def Duplicate_ref
  by (intro exI conjI, rule refl) (simp_all add: GetParentGroup_def setter_defs host_effects)

lemma copy_trace_effect:
  "fresh (copy_trace F ctx m t w) = Suc (fresh w)"
  "boards (copy_trace F ctx m t w) =
     (boards w)(targetBoard ctx := (boards w (targetBoard ctx))
        \<lparr>Items := Items (boards w (targetBoard ctx)) @ [fresh w]\<rparr>)"
  "pcb_groups (copy_trace F ctx m t w) =
     (pcb_groups w)(gm_group (manager ctx) := (pcb_groups w (gm_group (manager ctx)))
        \<lparr>g_items := g_items (pcb_groups w (gm_group (manager ctx))) @ [fresh w]\<rparr>)"
  "x \<noteq> fresh w \<Longrightarrow> items (copy_trace F ctx m t w) x = items w x"
  "cls (items (copy_trace F ctx m t w) (fresh w)) = cls (items w t)"
  "netcode (items (copy_trace F ctx m t w) (fresh w)) = dict_get m (netcode (items w t)) 0"
  "GetParentGroup (copy_trace F ctx m t w) (fresh w) = Some (gm_group (manager ctx))"
proof -
  from copy_trace_prepared [of F ctx m t w] obtain v where
    c: "copy_trace F ctx m t w = snd (move (manager ctx) (fresh w) v)"
    and p: "GetParentGroup v (fresh w) = None"
    and v: "fresh v = Suc (fresh w)"
      "boards v = (boards w)(targetBoard ctx := (boards w (targetBoard ctx))
                     \<lparr>Items := Items (boards w (targetBoard ctx)) @ [fresh w]\<rparr>)"
      "pcb_groups v = pcb_groups w"
      "\<forall>x. x \<noteq> fresh w \<longrightarrow> items v x = items w x"
      "cls (items v (fresh w)) = cls (items w t)"
      "netcode (items v (fresh w)) = dict_get m (netcode (items w t)) 0"
    by blast
  note e = claimed_copy [OF c p]
  show "fresh (copy_trace F ctx m t w) = Suc (fresh w)"
    by (simp add: e v)
  show "boards (copy_trace F ctx m t w) =
     (boards w)(targetBoard ctx := (boards w (targetBoard ctx))
        \<lparr>Items := Items (boards w (targetBoard ctx)) @ [fresh w]\<rparr>)"
    by (simp add: e v)
  show "pcb_groups (copy_trace F ctx m t w) =
     (pcb_groups w)(gm_group (manager ctx) := (pcb_groups w (gm_group (manager ctx)))
        \<lparr>g_items := g_items (pcb_groups w (gm_group (manager ctx))) @ [fresh w]\<rparr>)"
    by (simp add: e v)
  show "x \<noteq> fresh w \<Longrightarrow> items (copy_trace F ctx m t w) x = items w x"
    by (simp add: e v)
  show "cls (items (copy_trace F ctx m t w) (fresh w)) = cls (items w t)"
    by (simp add: e v)
  show "netcode (items (copy_trace F ctx m t w) (fresh w)) = dict_get m (netcode (items w t)) 0"
    by (simp add: e v)
  show "GetParentGroup (copy_trace F ctx m t w) (fresh w) = Some (gm_group (manager ctx))"
    by (rule e)
qed

lemma copy_zone_prepared:
  "\<exists>v. copy_zone F ctx m z w = snd (move (manager ctx) (fresh w) v)
       \<and> GetParentGroup v (fresh w) = None
       \<and> fresh v = Suc (fresh w)
       \<and> boards v = (boards w)(targetBoard ctx := (boards w (targetBoard ctx))
                        \<lparr>Items := Items (boards w (targetBoard ctx)) @ [fresh w]\<rparr>)
       \<and> (\<forall>x. x \<noteq> fresh w \<longrightarrow> items v x = items w x)
       \<and> netcode (items v (fresh w)) = dict_get m (netcode (items w z)) 0"
  unfolding copy_zone_def Let_def split_def Duplicate_ref
  by (intro exI conjI, rule refl) (simp_all add: GetParentGroup_def setter_defs host_effects)

lemma copy_zone_effect:
  "fresh (copy_zone F ctx m z w) = Suc (fresh w)"
  "boards (copy_zone F ctx m z w) =
     (boards w)(targetBoard ctx := (boards w (targetBoard ctx))
        \<lparr>Items := Items (boards w (targetBoard ctx)) @ [fresh w]\<rparr>)"
  "x \<noteq> fresh w \<Longrightarrow> items (copy_zone F ctx m z w) x = items w x"
  "netcode (items (copy_zone F ctx m z w) (fresh w)) = dict_get m (netcode (items w z)) 0"
proof -
  from copy_zone_prepared [of F ctx m z w] obtain v where
    c: "copy_zone F ctx m z w = snd (move (manager ctx) (fresh w) v)"
    and p: "GetParentGroup v (fresh w) = None"
    and v: "fresh v = Suc (fresh w)"
      "boards v = (boards w)(targetBoard ctx := (boards w (targetBoard ctx))
                     \<lparr>Items := Items (boards w (targetBoard ctx)) @ [fresh w]\<rparr>)"
      "\<forall>x. x \<noteq> fresh w \<longrightarrow> items v x = items w x"
      "netcode (items v (fresh w)) = dict_get m (netcode (items w z)) 0"
    by blast
  note e = claimed_copy [OF c p]
  show "fresh (copy_zone F ctx m z w) = Suc (fresh w)"
    by (simp add: e v)
  show "boards (copy_zone F ctx m z w) =
     (boards w)(targetBoard ctx := (boards w (targetBoard ctx))
        \<lparr>Items := Items (boards w (targetBoard ctx)) @ [fresh w]\<rparr>)"
    by (simp add: e v)
  show "x \<noteq> fresh w \<Longrightarrow> items (copy_zone F ctx m z w) x = items w x"
    by (simp add: e v)
  show "netcode (items (copy_zone F ctx m z w) (fresh w)) = dict_get m (netcode (items w z)) 0"
    by (simp add: e v)
qed

text \<open>
  A loop of such passes appends one copy per source item, in order, and gives each copy the
  mapped net of its source.
\<close>

lemma fold_copies:
  assumes fr: "\<And>t w. fresh (step t w) = Suc (fresh w)"
    and bo: "\<And>t w. boards (step t w) =
               (boards w)(tb := (boards w tb)\<lparr>Items := Items (boards w tb) @ [fresh w]\<rparr>)"
    and it: "\<And>t w x. x \<noteq> fresh w \<Longrightarrow> items (step t w) x = items w x"
    and ne: "\<And>t w. netcode (items (step t w) (fresh w)) = dict_get m (netcode (items w t)) 0"
    and old: "\<forall>t \<in> set ts. t < fresh w"
  shows "Items (boards (fold step ts w) tb) = Items (boards w tb) @ [fresh w ..< fresh w + length ts]
    \<and> map (\<lambda>r. netcode (items (fold step ts w) r)) [fresh w ..< fresh w + length ts]
        = map (\<lambda>t. dict_get m (netcode (items w t)) 0) ts"
  using old
proof (induction ts arbitrary: w)
  case Nil
  show ?case by simp
next
  case (Cons t ts)
  let ?w1 = "step t w"
  have keep: "items (fold step us v) x = items v x" if "x < fresh v" for us v x
    using that by (induction us arbitrary: v) (simp_all add: fr it)
  from Cons.prems have old1: "\<forall>t' \<in> set ts. t' < fresh ?w1"
    by (auto simp: fr)
  note IH = Cons.IH [OF old1, unfolded fr]
  have IH1: "Items (boards (fold step ts ?w1) tb)
               = Items (boards ?w1 tb) @ [Suc (fresh w) ..< Suc (fresh w) + length ts]"
    using IH by blast
  have IH2: "map (\<lambda>r. netcode (items (fold step ts ?w1) r))
                 [Suc (fresh w) ..< Suc (fresh w) + length ts]
               = map (\<lambda>t. dict_get m (netcode (items ?w1 t)) 0) ts"
    using IH by blast
  have b1: "Items (boards ?w1 tb) = Items (boards w tb) @ [fresh w]"
    by (simp add: bo)
  have same: "map (\<lambda>t. dict_get m (netcode (items ?w1 t)) 0) ts
                = map (\<lambda>t. dict_get m (netcode (items w t)) 0) ts"
    using Cons.prems by (auto simp: it)
  have first: "netcode (items (fold step ts ?w1) (fresh w)) = dict_get m (netcode (items w t)) 0"
    by (simp add: keep fr ne)
  have iv: "[fresh w ..< fresh w + length (t # ts)]
              = fresh w # [Suc (fresh w) ..< Suc (fresh w) + length ts]"
    by (simp add: upt_conv_Cons del: upt_Suc)
  show ?case
    unfolding iv using IH1 IH2 b1 same first by (simp del: upt_Suc)
qed

lemma copy_zones_raises: "copy_zones context netMapping w = (Inl NameError, w)"
  by (simp add: copy_zones_def load_name_def module_globals_def)

text \<open>
  Claim C5 holds on the code. In a design whose template tracks and zones were allocated
  before the run, \<open>copy_traces\<close> appends one copy per template track to the target board,
  in order, and the net code of each copy is the code that the mapping gives for the net of
  its template track, or 0 when the mapping has no entry for it. The loop of
  \<open>copy_zones\<close> does the same for the zones. \<open>copy_zones\<close> as written raises before
  its loop, so it copies no zone at all.
\<close>

theorem copied_nets_follow_mapping:
  assumes "\<forall>t \<in> set (Tracks w (sourceBoard ctx)). t < fresh w"
    and "\<forall>z \<in> set (Zones w (sourceBoard ctx)). z < fresh w"
  shows "(let ts = Tracks w (sourceBoard ctx); w' = copy_traces F ctx m w;
              new = [fresh w ..< fresh w + length ts]
          in Items (boards w' (targetBoard ctx)) = Items (boards w (targetBoard ctx)) @ new
             \<and> map (\<lambda>r. netcode (items w' r)) new
                 = map (\<lambda>t. case m (netcode (items w t)) of None \<Rightarrow> 0 | Some c \<Rightarrow> c) ts)
    \<and> (let zs = Zones w (sourceBoard ctx); w' = copy_zones_loop F ctx m w;
              new = [fresh w ..< fresh w + length zs]
          in Items (boards w' (targetBoard ctx)) = Items (boards w (targetBoard ctx)) @ new
             \<and> map (\<lambda>r. netcode (items w' r)) new
                 = map (\<lambda>z. case m (netcode (items w z)) of None \<Rightarrow> 0 | Some c \<Rightarrow> c) zs)
    \<and> copy_zones ctx m w = (Inl NameError, w)"
proof -
  let ?ts = "Tracks w (sourceBoard ctx)"
  let ?zs = "Zones w (sourceBoard ctx)"
  have t: "Items (boards (fold (copy_trace F ctx m) ?ts w) (targetBoard ctx))
             = Items (boards w (targetBoard ctx)) @ [fresh w ..< fresh w + length ?ts]
           \<and> map (\<lambda>r. netcode (items (fold (copy_trace F ctx m) ?ts w) r))
                 [fresh w ..< fresh w + length ?ts]
               = map (\<lambda>t. dict_get m (netcode (items w t)) 0) ?ts"
    by (rule fold_copies) (simp_all add: copy_trace_effect assms)
  have z: "Items (boards (fold (copy_zone F ctx m) ?zs w) (targetBoard ctx))
             = Items (boards w (targetBoard ctx)) @ [fresh w ..< fresh w + length ?zs]
           \<and> map (\<lambda>r. netcode (items (fold (copy_zone F ctx m) ?zs w) r))
                 [fresh w ..< fresh w + length ?zs]
               = map (\<lambda>t. dict_get m (netcode (items w t)) 0) ?zs"
    by (rule fold_copies) (simp_all add: copy_zone_effect assms)
  have d: "(\<lambda>t. dict_get m (netcode (items w t)) 0)
             = (\<lambda>t. case m (netcode (items w t)) of None \<Rightarrow> 0 | Some c \<Rightarrow> c)"
    by (simp add: dict_get_def)
  show ?thesis
    unfolding Let_def copy_traces_def copy_zones_loop_def copy_zones_raises
    using t z unfolding d by simp
qed

text \<open>
  Claim C5 on the two-board design, with a mapping that sends net 1 to net 7 and has no
  entry for net 2: the copy of track 20 (net 1) is item 30 on net 7; the loop of
  \<open>copy_zones\<close> would copy zone 21 (net 2) to an item on net 0; \<open>copy_zones\<close> itself
  leaves the design as it is.
\<close>

theorem copied_nets_follow_mapping_witness:
  "\<forall>F. Tracks design_world 0 = [20] \<and> Zones design_world 0 = [21]
     \<and> fresh design_world = 30
     \<and> netcode (items design_world 20) = 1 \<and> netcode (items design_world 21) = 2
     \<and> Items (boards (copy_traces F design_context [1 \<mapsto> 7] design_world) 2) = [11, 13, 30]
     \<and> netcode (items (copy_traces F design_context [1 \<mapsto> 7] design_world) 30) = 7
     \<and> Items (boards (copy_zones_loop F design_context [1 \<mapsto> 7] design_world) 2) = [11, 13, 30]
     \<and> netcode (items (copy_zones_loop F design_context [1 \<mapsto> 7] design_world) 30) = 0
     \<and> copy_zones design_context [1 \<mapsto> 7] design_world = (Inl NameError, design_world)"
proof
  fix F
  have s: "sourceBoard design_context = 0" "targetBoard design_context = 2"
    by (simp_all add: design_context_def)
  have k: "Tracks design_world 0 = [20]" "Zones design_world 0 = [21]"
    "fresh design_world = 30"
    "netcode (items design_world 20) = 1" "netcode (items design_world 21) = 2"
    "Items (boards design_world 2) = [11, 13]"
    by (simp_all add: Tracks_def Zones_def items_of_class_def isinstance_def world_defs)
  have p: "\<forall>t \<in> set (Tracks design_world (sourceBoard design_context)). t < fresh design_world"
    by (simp add: s k)
  have q: "\<forall>z \<in> set (Zones design_world (sourceBoard design_context)). z < fresh design_world"
    by (simp add: s k)
  have u: "[30 ..< 31] = [30::nat]"
    by (simp add: upt_conv_Cons)
  from copied_nets_follow_mapping [where F = F and m = "[1 \<mapsto> 7]", OF p q]
  show "Tracks design_world 0 = [20] \<and> Zones design_world 0 = [21]
     \<and> fresh design_world = 30
     \<and> netcode (items design_world 20) = 1 \<and> netcode (items design_world 21) = 2
     \<and> Items (boards (copy_traces F design_context [1 \<mapsto> 7] design_world) 2) = [11, 13, 30]
     \<and> netcode (items (copy_traces F design_context [1 \<mapsto> 7] design_world) 30) = 7
     \<and> Items (boards (copy_zones_loop F design_context [1 \<mapsto> 7] design_world) 2) = [11, 13, 30]
     \<and> netcode (items (copy_zones_loop F design_context [1 \<mapsto> 7] design_world) 30) = 0
     \<and> copy_zones design_context [1 \<mapsto> 7] design_world = (Inl NameError, design_world)"
    unfolding Let_def s k by (simp add: u k)
qed

section \<open>Properties of a replication run\<close>

text \<open>
  The first context built for the two-board design creates the group, with reference 30,
  and registers it on the template board.
\<close>

lemma design_init:
  "ReplicateContext_init 10 11 ''inst'' design_world = (design_context, registered_world)"
  by (simp add: ReplicateContext_init_def GroupManager_init_def create_or_get_def
      find_group_def PCB_GROUP_new_def SetName_def Add_group_def design_context_def
      registered_world_def world_defs Let_def)

lemma context_parts:
  "sourceBoard design_context = 0" "targetBoard design_context = 2"
  "gm_group (manager design_context) = 30"
  by (simp_all add: design_context_def)

lemma registered_parts:
  "fresh registered_world = 31"
  "Items (boards registered_world 0) = [10, 12, 20, 21, 22]"
  "Groups (boards registered_world 0) = [30]"
  "Items (boards registered_world 2) = [11, 13]"
  "pcb_groups registered_world 30 = \<lparr>g_name = ''inst'', g_items = [], g_board = Some 0\<rparr>"
  "items registered_world = items design_world"
  by (simp_all add: registered_world_def world_defs)

lemma design_classes:
  "cls (items design_world 10) = FOOTPRINT" "cls (items design_world 12) = FOOTPRINT"
  "cls (items design_world 11) = FOOTPRINT" "cls (items design_world 13) = FOOTPRINT"
  "cls (items design_world 20) = PCB_TRACK" "cls (items design_world 21) = ZONE"
  "cls (items design_world 22) = PCB_SHAPE"
  "board (items design_world 10) = 0" "board (items design_world 11) = 2"
  by (simp_all add: world_defs)

lemmas enumerations = GetDrawings_def Tracks_def items_of_class_def isinstance_def



lemma g_items_RemoveNative_parent:
  "GetParentGroup w x = Some p
     \<Longrightarrow> g_items (pcb_groups (RemoveNative b x w) p) = removeAll x (g_items (pcb_groups w p))"
  by (simp add: RemoveNative_def RemoveItem_def GetParentGroup_def Let_def)

text \<open>
  Claim C8 fails on the code. A context is built for the two-board design and the template
  drawing 22 is copied: the copy, item 31, is on the target board 2 and is the one item of
  the group, which is registered on the template board 0. The purge of that group returns
  normally and empties the group, but it calls \<open>RemoveNative\<close> on the template board: the
  copy is still on the target board, among its drawings.
\<close>

theorem purge_leaves_copy_on_target_board:
  "(let (context, w0) = ReplicateContext_init 10 11 ''inst'' design_world;
        w1 = copy_drawings F context w0;
        (purged, w2) = clear_volatile_items (gm_group (manager context)) w1
    in GetDrawings w1 2 = [31]
       \<and> g_items (pcb_groups w1 (gm_group (manager context))) = [31]
       \<and> GetParentGroup w1 31 = Some (gm_group (manager context))
       \<and> g_board (pcb_groups w1 (gm_group (manager context))) = Some 0
       \<and> purged = Inr ()
       \<and> g_items (pcb_groups w2 (gm_group (manager context))) = []
       \<and> Items (boards w2 2) = [11, 13, 31]
       \<and> GetDrawings w2 2 = [31])"
proof -
  define A where "A = copy_drawing F design_context 22 registered_world"
  define C where "C = RemoveNative 0 31 A"
  have run: "copy_drawings F design_context registered_world = A"
    by (simp add: copy_drawings_def A_def context_parts enumerations registered_parts
        design_classes)
  have I2: "Items (boards A 2) = [11, 13, 31]"
    by (simp add: A_def copy_drawing_effect context_parts registered_parts)
  have old: "items A x = items design_world x" if "x \<noteq> 31" for x
    using that by (simp add: A_def copy_drawing_effect registered_parts)
  have new: "cls (items A 31) = PCB_SHAPE"
    using copy_drawing_effect(5) [of F design_context 22 registered_world]
    by (simp add: A_def registered_parts design_classes)
  have par: "GetParentGroup A 31 = Some 30"
    using copy_drawing_effect(6) [of F design_context 22 registered_world]
    by (simp add: A_def registered_parts context_parts)
  have grp: "pcb_groups A 30 = \<lparr>g_name = ''inst'', g_items = [31], g_board = Some 0\<rparr>"
    by (simp add: A_def copy_drawing_effect context_parts registered_parts)
  have purge: "clear_volatile_items 30 A = (Inr (), C)"
    by (simp add: clear_volatile_items_def grp volatile_iff new C_def)
  have dA: "GetDrawings A 2 = [31]"
    by (simp add: enumerations I2 old new design_classes)
  have gC: "g_items (pcb_groups C 30) = []"
    by (simp add: C_def g_items_RemoveNative_parent [OF par] grp)
  have IC: "Items (boards C 2) = [11, 13, 31]"
    by (simp add: C_def Items_RemoveNative I2)
  have cC: "cls (items C x) = cls (items A x)" for x
    by (simp add: C_def cls_RemoveNative)
  have dC: "GetDrawings C 2 = [31]"
    by (simp add: enumerations IC cC old new design_classes)
  show ?thesis
    by (simp add: design_init run context_parts purge dA grp par gC IC dC)
qed


end
